theory Spec2Isabelle
  imports Complex_Main "HOL-Library.Sublist" "HOL-Library.Multiset"
begin

section \<open>Timelapse URL: the capture, session and assembly pipeline of server.js\<close>

text \<open>
  The server keeps a map of capture sessions in memory and one directory of frames per
  URL on disk. This theory embeds the functions of \<^verbatim>\<open>server.js\<close> as HOL functions
  over an explicit file system and an explicit session map, with every rejected promise
  of the source as an \<open>Inl\<close> result.
\<close>

subsection \<open>Strings and buffers\<close>

text \<open>
  A \<^verbatim>\<open>Buffer\<close> is a list of bytes; a file name or URL is a list of characters.
  Both are \<open>string\<close> here (an Isabelle \<open>char\<close> is one byte), so the model covers
  the names and URLs made of single-byte characters.
\<close>

type_synonym buffer = string

definition startsWith :: "string \<Rightarrow> string \<Rightarrow> bool" where
  "startsWith s p = (take (length p) s = p)"

definition endsWith :: "string \<Rightarrow> string \<Rightarrow> bool" where
  "endsWith s p = (length p \<le> length s \<and> drop (length s - length p) s = p)"

text \<open>\<^verbatim>\<open>s.replace(pat, '')\<close> with a string pattern: the first occurrence only.\<close>

fun removeFirst :: "string \<Rightarrow> string \<Rightarrow> string" where
  "removeFirst pat [] = []"
| "removeFirst pat (c # cs) =
     (if startsWith (c # cs) pat then drop (length pat) (c # cs)
      else c # removeFirst pat cs)"

text \<open>\<^verbatim>\<open>s.split(sep)\<close> for a one-character separator: never the empty array.\<close>

fun split :: "char \<Rightarrow> string \<Rightarrow> string list" where
  "split sep [] = [[]]"
| "split sep (c # cs) =
     (case split sep cs of
        [] \<Rightarrow> (if c = sep then [[], []] else [[c]])
      | p # ps \<Rightarrow> (if c = sep then [] # p # ps else (c # p) # ps))"

text \<open>Decimal rendering of a number, as \<^verbatim>\<open>String(n)\<close> and a template literal do.\<close>

definition digitChar :: "nat \<Rightarrow> char" where
  "digitChar d = char_of (48 + d)"

fun showNat :: "nat \<Rightarrow> string" where
  "showNat n = (if n < 10 then [digitChar n] else showNat (n div 10) @ [digitChar (n mod 10)])"

declare showNat.simps [simp del]

definition showInt :: "int \<Rightarrow> string" where
  "showInt i = (if i < 0 then CHR ''-'' # showNat (nat (- i)) else showNat (nat i))"

text \<open>\<^verbatim>\<open>s.padStart(n, '0')\<close>.\<close>

definition padStart :: "nat \<Rightarrow> char \<Rightarrow> string \<Rightarrow> string" where
  "padStart n c s = replicate (n - length s) c @ s"

subsection \<open>Errors\<close>

text \<open>
  Every error object of the source carries a message, which the capture handler puts in
  its response. The constructors keep apart where the error came from.
\<close>

datatype error =
    FsError string        \<comment> \<open>a rejected \<^verbatim>\<open>fs.promises\<close> call\<close>
  | FetchError string     \<comment> \<open>an \<^verbatim>\<open>'error'\<close> event of the request or the response\<close>
  | ImageError string     \<comment> \<open>a rejected \<^verbatim>\<open>sharp\<close> call\<close>
  | StreamError string    \<comment> \<open>an \<^verbatim>\<open>'error'\<close> event of the GIF write stream\<close>

fun message :: "error \<Rightarrow> string" where
  "message (FsError m) = m"
| "message (FetchError m) = m"
| "message (ImageError m) = m"
| "message (StreamError m) = m"

subsection \<open>The file system\<close>

text \<open>
  A directory is an ordered listing of named files (the order is the one
  \<^verbatim>\<open>readdir\<close> reports). \<^verbatim>\<open>path.join(dir, name)\<close> is the pair of the directory and the
  entry name: every name the server joins comes from \<^verbatim>\<open>readdir\<close> or from its own
  naming scheme and holds no separator. A file system that refuses writes
  (\<open>readOnly\<close>) stands for permission and disk failures.
\<close>

type_synonym path = "string \<times> string"

record fs =
  dirs :: "string \<rightharpoonup> (string \<times> buffer) list"
  readOnly :: bool

definition pathJoin :: "string \<Rightarrow> string \<Rightarrow> path" where
  "pathJoin dir name = (dir, name)"

definition pathString :: "path \<Rightarrow> string" where
  "pathString p = fst p @ ''/'' @ snd p"

definition readFile :: "fs \<Rightarrow> path \<Rightarrow> error + buffer" where
  "readFile f p =
     (case dirs f (fst p) of
        None \<Rightarrow> Inl (FsError (''ENOENT: no such file or directory, open '' @ pathString p))
      | Some es \<Rightarrow>
          (case map_of es (snd p) of
             None \<Rightarrow> Inl (FsError (''ENOENT: no such file or directory, open '' @ pathString p))
           | Some b \<Rightarrow> Inr b))"

fun putEntry :: "string \<Rightarrow> buffer \<Rightarrow> (string \<times> buffer) list \<Rightarrow> (string \<times> buffer) list" where
  "putEntry n b [] = [(n, b)]"
| "putEntry n b (e # es) = (if fst e = n then (n, b) # es else e # putEntry n b es)"

definition writeFile :: "fs \<Rightarrow> path \<Rightarrow> buffer \<Rightarrow> error + fs" where
  "writeFile f p b =
     (if readOnly f then Inl (FsError (''EROFS: read-only file system, open '' @ pathString p))
      else case dirs f (fst p) of
        None \<Rightarrow> Inl (FsError (''ENOENT: no such file or directory, open '' @ pathString p))
      | Some es \<Rightarrow> Inr (f\<lparr>dirs := (dirs f)(fst p \<mapsto> putEntry (snd p) b es)\<rparr>))"

definition readdir :: "fs \<Rightarrow> string \<Rightarrow> error + string list" where
  "readdir f dir =
     (case dirs f dir of
        None \<Rightarrow> Inl (FsError (''ENOENT: no such file or directory, scandir '' @ dir))
      | Some es \<Rightarrow> Inr (map fst es))"

text \<open>\<^verbatim>\<open>fs.access\<close>: whether the directory, or the file, is there.\<close>

definition accessDir :: "fs \<Rightarrow> string \<Rightarrow> bool" where
  "accessDir f dir = (dirs f dir \<noteq> None)"

definition accessFile :: "fs \<Rightarrow> path \<Rightarrow> bool" where
  "accessFile f p = (case readFile f p of Inl e \<Rightarrow> False | Inr b \<Rightarrow> True)"

definition mkdir :: "fs \<Rightarrow> string \<Rightarrow> error + fs" where
  "mkdir f dir =
     (if readOnly f then Inl (FsError (''EROFS: read-only file system, mkdir '' @ dir))
      else if dirs f dir \<noteq> None then Inr f
      else Inr (f\<lparr>dirs := (dirs f)(dir \<mapsto> [])\<rparr>))"

text \<open>\<^verbatim>\<open>ensureDir\<close> (server.js 31-37).\<close>

definition ensureDir :: "fs \<Rightarrow> string \<Rightarrow> error + fs" where
  "ensureDir f dir = (if accessDir f dir then Inr f else mkdir f dir)"

text \<open>\<^verbatim>\<open>imagesAreIdentical\<close> (server.js 11-19): any failed read gives \<^verbatim>\<open>false\<close>.\<close>

definition imagesAreIdentical :: "fs \<Rightarrow> path \<Rightarrow> path \<Rightarrow> bool" where
  "imagesAreIdentical f imagePath1 imagePath2 =
     (case readFile f imagePath1 of
        Inl e \<Rightarrow> False
      | Inr buffer1 \<Rightarrow>
          (case readFile f imagePath2 of
             Inl e \<Rightarrow> False
           | Inr buffer2 \<Rightarrow> buffer1 = buffer2))"

subsection \<open>The image and animation libraries\<close>

text \<open>
  \<^verbatim>\<open>sharp\<close>, \<^verbatim>\<open>gif-encoder-2\<close> and \<^verbatim>\<open>crypto\<close> are not part of the repository: the
  functions take them as parameters. \<open>sharpMetadata\<close> gives the width and height of
  an encoded image, \<open>sharpRaw w h\<close> the raw RGBA pixels of the image resized to
  \<open>w\<close> by \<open>h\<close>; both fail on bytes that are no image. \<open>gifEncode\<close> gives the bytes
  the encoder has produced after the calls recorded in a \<open>gif\<close>.
\<close>

record gif =
  gifWidth :: nat
  gifHeight :: nat
  gifRepeat :: int
  gifDelay :: int
  gifQuality :: nat
  gifFrames :: "buffer list"
  gifFinished :: bool

record libs =
  sharpMetadata :: "buffer \<Rightarrow> (nat \<times> nat) option"
  sharpRaw :: "nat \<Rightarrow> nat \<Rightarrow> buffer \<Rightarrow> buffer option"
  gifEncode :: "gif \<Rightarrow> buffer"
  md5hex :: "string \<Rightarrow> string"

subsection \<open>Assembly: \<^verbatim>\<open>generateGif\<close> (server.js 116-166)\<close>

text \<open>
  The loop of lines 141-159. \<open>previousImagePath\<close> is the last frame that was added
  (\<open>None\<close> for \<^verbatim>\<open>null\<close>), \<open>added\<close> the frames given to the encoder so far. A frame
  that cannot be read or decoded ends the loop with the error.
\<close>

fun addFrames ::
  "libs \<Rightarrow> fs \<Rightarrow> string \<Rightarrow> nat \<Rightarrow> nat \<Rightarrow> path option \<Rightarrow> string list \<Rightarrow> buffer list
     \<Rightarrow> error option \<times> buffer list" where
  "addFrames L f sessionDir width height previousImagePath [] added = (None, added)"
| "addFrames L f sessionDir width height previousImagePath (imageName # rest) added =
     (let imagePath = pathJoin sessionDir imageName in
      if (case previousImagePath of None \<Rightarrow> False
          | Some prev \<Rightarrow> imagesAreIdentical f imagePath prev)
      then addFrames L f sessionDir width height previousImagePath rest added
      else
        (case readFile f imagePath of
           Inl e \<Rightarrow> (Some (ImageError (message e)), added)
         | Inr bytes \<Rightarrow>
             (case sharpRaw L width height bytes of
                None \<Rightarrow> (Some (ImageError ''Input file contains unsupported image format''), added)
              | Some imageBuffer \<Rightarrow>
                  addFrames L f sessionDir width height (Some imagePath) rest
                    (added @ [imageBuffer]))))"

definition gifName :: string where
  "gifName = ''timelapse.gif''"

text \<open>
  The result is \<open>Inr None\<close> for \<^verbatim>\<open>null\<close>, \<open>Inr (Some gifPath)\<close> for the resolved
  path, \<open>Inl e\<close> for a rejection. The write stream is opened after the first frame has
  been measured (line 132); from then on the file holds what the encoder has produced,
  also when a later frame fails. A stream that cannot be opened has no
  \<^verbatim>\<open>'error'\<close> listener: that is \<open>StreamError\<close>, which no \<^verbatim>\<open>catch\<close> of the source
  receives.
\<close>

definition generateGif ::
  "libs \<Rightarrow> fs \<Rightarrow> string \<Rightarrow> string list \<Rightarrow> int \<Rightarrow> (error + path option) \<times> fs" where
  "generateGif L f sessionDir images delay =
     (if length images = 0 then (Inr None, f)
      else
        let gifPath = pathJoin sessionDir gifName;
            firstImagePath = pathJoin sessionDir (images ! 0)
        in case readFile f firstImagePath of
             Inl e \<Rightarrow> (Inl (ImageError (message e)), f)
           | Inr firstBytes \<Rightarrow>
               (case sharpMetadata L firstBytes of
                  None \<Rightarrow> (Inl (ImageError ''Input file contains unsupported image format''), f)
                | Some (width, height) \<Rightarrow>
                    (let (failure, added) =
                           addFrames L f sessionDir width height None images [];
                         encoder = \<lparr>gifWidth = width, gifHeight = height, gifRepeat = 0,
                                    gifDelay = delay, gifQuality = 10, gifFrames = added,
                                    gifFinished = (failure = None)\<rparr>
                     in case writeFile f gifPath (gifEncode L encoder) of
                          Inl e \<Rightarrow> (Inl (StreamError (message e)), f)
                        | Inr f' \<Rightarrow>
                            (case failure of
                               Some e \<Rightarrow> (Inl e, f')
                             | None \<Rightarrow> (Inr (Some gifPath), f')))))"

subsection \<open>Directory names: \<^verbatim>\<open>urlToDirectory\<close> (server.js 40-44)\<close>

definition isAlnum :: "char \<Rightarrow> bool" where
  "isAlnum c =
     (let n = of_char c :: nat
      in (97 \<le> n \<and> n \<le> 122) \<or> (65 \<le> n \<and> n \<le> 90) \<or> (48 \<le> n \<and> n \<le> 57))"

text \<open>\<^verbatim>\<open>url.replace(/^https?:\/\//, '')\<close>.\<close>

definition stripScheme :: "string \<Rightarrow> string" where
  "stripScheme url =
     (if startsWith url ''https://'' then drop 8 url
      else if startsWith url ''http://'' then drop 7 url
      else url)"

definition urlToDirectory :: "libs \<Rightarrow> string \<Rightarrow> string" where
  "urlToDirectory L url =
     (let hash = take 8 (md5hex L url);
          sanitized = take 30 (map (\<lambda>c. if isAlnum c then c else CHR ''_'') (stripScheme url))
      in sanitized @ ''_'' @ hash)"

subsection \<open>Resuming: \<^verbatim>\<open>loadExistingSession\<close> (server.js 47-74)\<close>

text \<open>
  \<^verbatim>\<open>parseInt\<close> without a radix: leading white space, a sign, \<^verbatim>\<open>0x\<close> for base 16,
  then the longest run of digits; \<open>None\<close> is \<^verbatim>\<open>NaN\<close>. A JavaScript number is a
  double: the integer returned here is the number the source computes as long as it is
  at most \<open>2 ^ 53\<close> in absolute value, which the theorems about ordering assume.
\<close>

definition isWhiteSpace :: "char \<Rightarrow> bool" where
  "isWhiteSpace c = (of_char c \<in> {9, 10, 11, 12, 13, 32, 160 :: nat})"

definition digitValue :: "char \<Rightarrow> nat" where
  "digitValue c =
     (let n = of_char c :: nat
      in if 48 \<le> n \<and> n \<le> 57 then n - 48
         else if 97 \<le> n \<and> n \<le> 122 then n - 87
         else if 65 \<le> n \<and> n \<le> 90 then n - 55
         else 36)"

definition parseInt :: "string \<Rightarrow> int option" where
  "parseInt str =
     (let s = dropWhile isWhiteSpace str;
          negative = (s \<noteq> [] \<and> hd s = CHR ''-'');
          s = (if s \<noteq> [] \<and> (hd s = CHR ''-'' \<or> hd s = CHR ''+'') then tl s else s);
          hex = (startsWith s ''0x'' \<or> startsWith s ''0X'');
          radix = (if hex then 16 else 10 :: nat);
          s = (if hex then drop 2 s else s);
          z = takeWhile (\<lambda>c. digitValue c < radix) s
      in if z = [] then None
         else Some ((if negative then - 1 else 1) *
                    int (foldl (\<lambda>a c. a * radix + digitValue c) 0 z)))"

text \<open>The \<^verbatim>\<open>getTimestamp\<close> of lines 54-57 and the comparator of line 58.\<close>

definition getTimestamp :: "string \<Rightarrow> int option" where
  "getTimestamp filename = parseInt (last (split CHR ''_'' (removeFirst ''.png'' filename)))"

definition compareTimestamps :: "string \<Rightarrow> string \<Rightarrow> int option" where
  "compareTimestamps a b =
     (case getTimestamp a of
        None \<Rightarrow> None
      | Some x \<Rightarrow> (case getTimestamp b of None \<Rightarrow> None | Some y \<Rightarrow> Some (x - y)))"

text \<open>
  \<^verbatim>\<open>Array.prototype.sort\<close> with a comparator. A comparator result of \<^verbatim>\<open>NaN\<close> counts
  as \<open>0\<close>. The sort is stable; it is written as the insertion sort that places each
  element after the elements it is not smaller than, scanning the sorted part from its
  end (\<open>insertFromEnd\<close> works on the reversed sorted part). For a comparator that is a
  consistent ordering this is the one result every stable sort returns
  (\<open>arraySort_stable_sort\<close> below). For any other comparator the language leaves the
  order to the engine; an array whose every element compares as \<open>0\<close> or \<^verbatim>\<open>NaN\<close>
  with its left neighbour is one ascending run for the engine's merge sort and stays as
  it is, as it does here.
\<close>

definition comesBefore :: "('a \<Rightarrow> 'a \<Rightarrow> int option) \<Rightarrow> 'a \<Rightarrow> 'a \<Rightarrow> bool" where
  "comesBefore comparefn x y = (case comparefn x y of None \<Rightarrow> False | Some v \<Rightarrow> v < 0)"

fun insertFromEnd :: "('a \<Rightarrow> 'a \<Rightarrow> int option) \<Rightarrow> 'a \<Rightarrow> 'a list \<Rightarrow> 'a list" where
  "insertFromEnd comparefn x [] = [x]"
| "insertFromEnd comparefn x (y # ys) =
     (if comesBefore comparefn x y then y # insertFromEnd comparefn x ys else x # y # ys)"

definition arraySort :: "('a \<Rightarrow> 'a \<Rightarrow> int option) \<Rightarrow> 'a list \<Rightarrow> 'a list" where
  "arraySort comparefn xs = rev (foldl (\<lambda>sorted x. insertFromEnd comparefn x sorted) [] xs)"

record frames =
  images :: "string list"
  captureCount :: nat

definition isFrameFile :: "string \<Rightarrow> bool" where
  "isFrameFile f = (startsWith f ''image_'' \<and> endsWith f ''.png'')"

definition loadExistingSession :: "fs \<Rightarrow> string \<Rightarrow> string \<Rightarrow> frames" where
  "loadExistingSession f sessionDir url =
     (case readdir f sessionDir of
        Inl e \<Rightarrow> \<lparr>images = [], captureCount = 0\<rparr>
      | Inr files \<Rightarrow>
          (let imageFiles = arraySort compareTimestamps (filter isFrameFile files)
           in \<lparr>images = imageFiles, captureCount = length imageFiles\<rparr>))"

subsection \<open>Directory metadata: \<^verbatim>\<open>saveMetadata\<close> (server.js 77-90)\<close>

text \<open>\<^verbatim>\<open>JSON.stringify\<close> of a string, and of the metadata object with indent 2.\<close>

definition hexDigit :: "nat \<Rightarrow> char" where
  "hexDigit d = (if d < 10 then char_of (48 + d) else char_of (87 + d))"

definition jsonEscape :: "char \<Rightarrow> string" where
  "jsonEscape c =
     (let n = of_char c :: nat
      in if c = CHR 0x22 then [CHR 0x5C, CHR 0x22]
         else if c = CHR 0x5C then [CHR 0x5C, CHR 0x5C]
         else if n = 8 then [CHR 0x5C, CHR ''b'']
         else if n = 9 then [CHR 0x5C, CHR ''t'']
         else if n = 10 then [CHR 0x5C, CHR ''n'']
         else if n = 12 then [CHR 0x5C, CHR ''f'']
         else if n = 13 then [CHR 0x5C, CHR ''r'']
         else if n < 32 then [CHR 0x5C, CHR ''u'', CHR ''0'', CHR ''0'',
                              hexDigit (n div 16), hexDigit (n mod 16)]
         else [c])"

definition jsonString :: "string \<Rightarrow> string" where
  "jsonString s = [CHR 0x22] @ concat (map jsonEscape s) @ [CHR 0x22]"

definition metadataJson :: "string \<Rightarrow> string \<Rightarrow> string" where
  "metadataJson url createdAt =
     ''{'' @ [CHR 0x0A] @ ''  '' @ jsonString ''url'' @ '': '' @ jsonString url @ '','' @
     [CHR 0x0A] @ ''  '' @ jsonString ''createdAt'' @ '': '' @ jsonString createdAt @
     [CHR 0x0A] @ ''}''"

definition metadataName :: string where
  "metadataName = ''metadata.json''"

text \<open>\<open>isoNow\<close> is what \<^verbatim>\<open>new Date().toISOString()\<close> returns at the call.\<close>

definition saveMetadata :: "fs \<Rightarrow> string \<Rightarrow> string \<Rightarrow> string \<Rightarrow> error + fs" where
  "saveMetadata f sessionDir url isoNow =
     (let metadataPath = pathJoin sessionDir metadataName
      in if accessFile f metadataPath then Inr f
         else writeFile f metadataPath (metadataJson url isoNow))"

subsection \<open>Fetching: \<^verbatim>\<open>fetchImage\<close> (server.js 93-113)\<close>

text \<open>
  What one \<^verbatim>\<open>get\<close> of the network does: the request fails before any response; or a
  response with a status code arrives and its body comes in chunks up to \<^verbatim>\<open>'end'\<close>;
  or the response breaks off with an \<^verbatim>\<open>'error'\<close> event. The source sets no timeout: a
  request that never completes leaves the promise pending and the handler without an
  answer, which is none of the outcomes here.
\<close>

datatype transport = Http | Https

datatype http_outcome =
    RequestError string
  | Response nat "buffer list"
  | ResponseError nat "buffer list" string

type_synonym network = "transport \<Rightarrow> string \<Rightarrow> http_outcome"

definition fetchImage :: "network \<Rightarrow> string \<Rightarrow> error + buffer" where
  "fetchImage net url =
     (let protocol = (if startsWith url ''https'' then Https else Http)
      in case net protocol url of
           RequestError m \<Rightarrow> Inl (FetchError m)
         | Response status chunks \<Rightarrow> Inr (concat chunks)
         | ResponseError status chunks m \<Rightarrow> Inl (FetchError m))"

subsection \<open>Sessions and request handlers\<close>

record session = frames +
  url :: string
  dirName :: string
  sessionDir :: string

record state =
  sessions :: "string \<rightharpoonup> session"
  disk :: fs

text \<open>
  What a handler sends. \<open>Uncaught e\<close>: the error leaves the handler (a rejection of
  the \<^verbatim>\<open>/api/start\<close> handler, which has no \<^verbatim>\<open>try\<close>, or a stream error) and
  the handler writes no response.
\<close>

datatype response =
    ErrorResponse nat string
  | StartResponse string string nat bool
  | CaptureResponse nat "string option" bool
  | SessionResponse string string nat "string option"
  | GenerateResponse
  | Uncaught error

definition capturesDir :: "string \<Rightarrow> string \<Rightarrow> string" where
  "capturesDir appDir name = appDir @ ''/captures/'' @ name"

text \<open>
  \<^verbatim>\<open>POST /api/start\<close> (server.js 169-202). \<open>appDir\<close> is \<^verbatim>\<open>__dirname\<close>,
  \<open>sessionId\<close> the hex string of \<^verbatim>\<open>crypto.randomBytes(16)\<close>. A missing or empty
  \<^verbatim>\<open>url\<close> is falsy.
\<close>

definition apiStart ::
  "libs \<Rightarrow> string \<Rightarrow> string option \<Rightarrow> string \<Rightarrow> string \<Rightarrow> state \<Rightarrow> response \<times> state" where
  "apiStart L appDir urlField sessionId isoNow st =
     (case urlField of
        None \<Rightarrow> (ErrorResponse 400 ''URL is required'', st)
      | Some u \<Rightarrow>
          (if u = [] then (ErrorResponse 400 ''URL is required'', st)
           else
             (let dName = urlToDirectory L u;
                  sDir = capturesDir appDir dName
              in (case ensureDir (disk st) sDir of
                    Inl e \<Rightarrow> (Uncaught e, st)
                  | Inr f1 \<Rightarrow>
                      (case saveMetadata f1 sDir u isoNow of
                         Inl e \<Rightarrow> (Uncaught e, st\<lparr>disk := f1\<rparr>)
                       | Inr f2 \<Rightarrow>
                           (let existingData = loadExistingSession f2 sDir u
                            in (StartResponse sessionId dName (captureCount existingData)
                                  (0 < captureCount existingData),
                                \<lparr>sessions = (sessions st)(sessionId \<mapsto>
                                     \<lparr>images = images existingData,
                                      captureCount = captureCount existingData,
                                      url = u, dirName = dName, sessionDir = sDir\<rparr>),
                                 disk = f2\<rparr>)))))))"

text \<open>The frame name of line 228.\<close>

definition imageName :: "nat \<Rightarrow> int \<Rightarrow> string" where
  "imageName index timestamp =
     ''image_'' @ padStart 5 CHR ''0'' (showNat index) @ ''_'' @ showInt timestamp @ ''.png''"

definition latestImage :: "string list \<Rightarrow> string option" where
  "latestImage imgs = (if imgs = [] then None else Some (last imgs))"

definition captureFailed :: "error \<Rightarrow> response" where
  "captureFailed e = ErrorResponse 500 (''Failed to capture image: '' @ message e)"

definition isStreamError :: "error \<Rightarrow> bool" where
  "isStreamError e = (case e of StreamError m \<Rightarrow> True | _ \<Rightarrow> False)"

text \<open>
  The \<^verbatim>\<open>try\<close> block of \<^verbatim>\<open>POST /api/capture/:sessionId\<close> (server.js 213-249) on the
  session record found. \<open>now\<close> is \<^verbatim>\<open>Date.now()\<close>. The result is the response, the
  file system and the session record afterwards.
\<close>

definition capture ::
  "libs \<Rightarrow> network \<Rightarrow> int \<Rightarrow> fs \<Rightarrow> session \<Rightarrow> response \<times> fs \<times> session" where
  "capture L net now f s =
     (case fetchImage net (url s) of
        Inl e \<Rightarrow> (captureFailed e, f, s)
      | Inr imageBuffer \<Rightarrow>
          (case (if length (images s) > 0
                 then (case readFile f (pathJoin (sessionDir s) (last (images s))) of
                         Inl e \<Rightarrow> Inl e
                       | Inr lastImageBuffer \<Rightarrow> Inr (imageBuffer = lastImageBuffer))
                 else Inr False) of
             Inl e \<Rightarrow> (captureFailed e, f, s)
           | Inr isDuplicate \<Rightarrow>
               if \<not> isDuplicate then
                 (let name = imageName (captureCount s) now;
                      imagePath = pathJoin (sessionDir s) name
                  in case writeFile f imagePath imageBuffer of
                       Inl e \<Rightarrow> (captureFailed e, f, s)
                     | Inr f1 \<Rightarrow>
                         (let s1 = s\<lparr>images := images s @ [name],
                                      captureCount := captureCount s + 1\<rparr>
                          in case generateGif L f1 (sessionDir s1) (images s1) 500 of
                               (Inl e, f2) \<Rightarrow>
                                 (if isStreamError e then (Uncaught e, f2, s1)
                                  else (captureFailed e, f2, s1))
                             | (Inr gifPath, f2) \<Rightarrow>
                                 (CaptureResponse (length (images s1)) (latestImage (images s1))
                                    isDuplicate, f2, s1)))
               else
                 (CaptureResponse (length (images s)) (latestImage (images s)) isDuplicate,
                  f, s)))"

definition apiCapture ::
  "libs \<Rightarrow> string \<Rightarrow> network \<Rightarrow> int \<Rightarrow> state \<Rightarrow> response \<times> state" where
  "apiCapture L sessionId net now st =
     (case sessions st sessionId of
        None \<Rightarrow> (ErrorResponse 404 ''Session not found'', st)
      | Some s \<Rightarrow>
          (let (r, f', s') = capture L net now (disk st) s
           in (r, \<lparr>sessions = (sessions st)(sessionId \<mapsto> s'), disk = f'\<rparr>)))"

text \<open>\<^verbatim>\<open>GET /api/session/:sessionId\<close> (server.js 253-267).\<close>

definition apiSession :: "string \<Rightarrow> state \<Rightarrow> response" where
  "apiSession sessionId st =
     (case sessions st sessionId of
        None \<Rightarrow> ErrorResponse 404 ''Session not found''
      | Some s \<Rightarrow>
          SessionResponse (url s) (dirName s) (length (images s)) (latestImage (images s)))"

text \<open>
  \<^verbatim>\<open>POST /api/generate-gif/:sessionId\<close> (server.js 270-288). The \<^verbatim>\<open>speed\<close> field
  is a number or missing; \<^verbatim>\<open>speed || 1\<close> replaces a missing and a zero speed by 1.
  \<^verbatim>\<open>Math.round\<close> rounds to the nearest integer, a half upwards. The speed is the
  rational number the request denotes and the division is exact: the source divides
  doubles, which gives the same delay whenever the quotient is a double itself (as
  \<open>500 / 2\<close>) or its rounding to a double stays on the same side of the next half.
\<close>

definition baseDelay :: rat where
  "baseDelay = 500"

definition speedDelay :: "rat option \<Rightarrow> int" where
  "speedDelay speed =
     round (baseDelay / (case speed of None \<Rightarrow> 1 | Some m \<Rightarrow> if m = 0 then 1 else m))"

definition apiGenerateGif ::
  "libs \<Rightarrow> string \<Rightarrow> rat option \<Rightarrow> state \<Rightarrow> response \<times> state" where
  "apiGenerateGif L sessionId speed st =
     (case sessions st sessionId of
        None \<Rightarrow> (ErrorResponse 404 ''Session not found'', st)
      | Some s \<Rightarrow>
          (let delay = speedDelay speed
           in case generateGif L (disk st) (sessionDir s) (images s) delay of
                (Inl e, f') \<Rightarrow>
                  (if isStreamError e then (Uncaught e, st\<lparr>disk := f'\<rparr>)
                   else (ErrorResponse 500 ''Failed to generate GIF'', st\<lparr>disk := f'\<rparr>))
              | (Inr gifPath, f') \<Rightarrow> (GenerateResponse, st\<lparr>disk := f'\<rparr>)))"

subsection \<open>Runs of requests\<close>

datatype request =
    Start "string option" string string
  | Capture string network int
  | Session string
  | GenerateGif string "rat option"

fun handle :: "libs \<Rightarrow> string \<Rightarrow> request \<Rightarrow> state \<Rightarrow> response \<times> state" where
  "handle L appDir (Start urlField sessionId isoNow) st = apiStart L appDir urlField sessionId isoNow st"
| "handle L appDir (Capture sessionId net now) st = apiCapture L sessionId net now st"
| "handle L appDir (Session sessionId) st = (apiSession sessionId st, st)"
| "handle L appDir (GenerateGif sessionId speed) st = apiGenerateGif L sessionId speed st"

fun run :: "libs \<Rightarrow> string \<Rightarrow> request list \<Rightarrow> state \<Rightarrow> state" where
  "run L appDir [] st = st"
| "run L appDir (r # rs) st = run L appDir rs (snd (handle L appDir r st))"

definition initialState :: "fs \<Rightarrow> state" where
  "initialState f = \<lparr>sessions = Map.empty, disk = f\<rparr>"

text \<open>
  A request that is a capture on session \<open>sid\<close> whose fetch of \<open>u\<close> returns the bytes
  \<open>b\<close>.
\<close>

fun fetches :: "string \<Rightarrow> string \<Rightarrow> buffer \<Rightarrow> request \<Rightarrow> bool" where
  "fetches sid u b (Capture sid' net now) = (sid' = sid \<and> fetchImage net u = Inr b)"
| "fetches sid u b r = False"







subsection \<open>Example inputs\<close>

text \<open>
  Concrete inputs at which the properties below are instantiated. \<open>exampleLibs\<close>
  stands in for the libraries: every non-empty buffer is an image as wide as it is long,
  rendering keeps the bytes, the encoder concatenates its frames, and the hash is one
  fixed digest.
\<close>

definition exampleLibs :: libs where
  "exampleLibs =
     \<lparr>sharpMetadata = (\<lambda>b. if b = [] then None else Some (length b, 1)),
      sharpRaw = (\<lambda>w h b. if b = [] then None else Some b),
      gifEncode = (\<lambda>g. concat (gifFrames g)),
      md5hex = (\<lambda>u. ''d41d8cd98f00b204e9800998ecf8427e'')\<rparr>"

definition exampleUrl :: string where
  "exampleUrl = ''http://cam''"

definition exampleDir :: string where
  "exampleDir = ''/srv/captures/cam_d41d8cd9''"

definition notFoundNetwork :: network where
  "notFoundNetwork = (\<lambda>t u. Response 404 [''Not '', ''Found''])"

definition refusedNetwork :: network where
  "refusedNetwork = (\<lambda>t u. RequestError ''connect ECONNREFUSED'')"

definition freshDisk :: fs where
  "freshDisk = \<lparr>dirs = [exampleDir \<mapsto> []], readOnly = False\<rparr>"

definition freshSession :: session where
  "freshSession = \<lparr>images = [], captureCount = 0, url = exampleUrl,
                    dirName = ''cam_d41d8cd9'', sessionDir = exampleDir\<rparr>"

definition frameNetwork :: network where
  "frameNetwork = (\<lambda>t u. Response 200 [''A''])"


definition freshState :: state where
  "freshState = \<lparr>sessions = [''s1'' \<mapsto> freshSession], disk = freshDisk\<rparr>"

definition oneFrameDisk :: fs where
  "oneFrameDisk = \<lparr>dirs = [exampleDir \<mapsto> [(''image_00000_1000.png'', ''A'')]], readOnly = False\<rparr>"

definition oneFrameSession :: session where
  "oneFrameSession = \<lparr>images = [''image_00000_1000.png''], captureCount = 1, url = exampleUrl,
                       dirName = ''cam_d41d8cd9'', sessionDir = exampleDir\<rparr>"

definition oneFrameState :: state where
  "oneFrameState = \<lparr>sessions = [''s1'' \<mapsto> oneFrameSession], disk = oneFrameDisk\<rparr>"

definition threeCaptures :: "request list" where
  "threeCaptures = [Capture ''s1'' frameNetwork 1000, Capture ''s1'' frameNetwork 2000,
                    Capture ''s1'' frameNetwork 3000]"

definition abbaDisk :: fs where
  "abbaDisk =
     \<lparr>dirs = [exampleDir \<mapsto>
        [(''image_00000_1000.png'', ''A''), (''image_00001_2000.png'', ''A''),
         (''image_00002_3000.png'', ''B''), (''image_00003_4000.png'', ''A'')]],
      readOnly = False\<rparr>"

definition abbaNames :: "string list" where
  "abbaNames = [''image_00000_1000.png'', ''image_00001_2000.png'',
                ''image_00002_3000.png'', ''image_00003_4000.png'']"

definition emptyDisk :: fs where
  "emptyDisk = \<lparr>dirs = Map.empty, readOnly = False\<rparr>"

definition firstStart :: "response \<times> state" where
  "firstStart = apiStart exampleLibs ''/srv'' (Some exampleUrl) ''s1''
                  ''2026-01-01T00:00:00.000Z'' (initialState emptyDisk)"

definition secondStart :: "response \<times> state" where
  "secondStart = apiStart exampleLibs ''/srv'' (Some exampleUrl) ''s2''
                   ''2026-06-30T12:00:00.000Z'' (snd firstStart)"







section \<open>Properties\<close>

subsection \<open>The file system and the assembler\<close>

lemma map_of_putEntry: "map_of (putEntry n b es) = (map_of es)(n \<mapsto> b)"
  by (induction es) (auto simp: fun_eq_iff)

lemma readFile_writeFile_same:
  "writeFile f p b = Inr f' \<Longrightarrow> readFile f' p = Inr b"
  by (auto simp: writeFile_def readFile_def map_of_putEntry split: if_splits option.splits)

lemma readFile_writeFile_other:
  "writeFile f p b = Inr f' \<Longrightarrow> q \<noteq> p \<Longrightarrow> readFile f' q = readFile f q"
  by (cases p; cases q)
     (auto simp: writeFile_def readFile_def map_of_putEntry split: if_splits option.splits)

lemma writeFile_Inr_iff:
  "(\<exists>f'. writeFile f p b = Inr f') = (\<not> readOnly f \<and> dirs f (fst p) \<noteq> None)"
  by (auto simp: writeFile_def split: if_splits option.splits)

lemma writeFile_keeps:
  "writeFile f p b = Inr f' \<Longrightarrow>
     readOnly f' = readOnly f \<and> (dirs f' d = None) = (dirs f d = None)"
  by (auto simp: writeFile_def split: if_splits option.splits)


lemma generateGif_other_files:
  assumes "q \<noteq> pathJoin dir gifName"
  shows "readFile (snd (generateGif L f dir imgs delay)) q = readFile f q"
  using assms
  by (auto simp: generateGif_def Let_def readFile_writeFile_other
      split: if_splits sum.splits option.splits prod.splits)

lemma generateGif_keeps:
  "readOnly (snd (generateGif L f dir imgs delay)) = readOnly f \<and>
   (dirs (snd (generateGif L f dir imgs delay)) d = None) = (dirs f d = None)"
  by (auto simp: generateGif_def Let_def dest: writeFile_keeps
      split: if_splits sum.splits option.splits prod.splits)




lemma capture_shape:
  assumes "capture L net now f s = (r, f', s')"
  shows "(f' = f \<and> s' = s) \<or>
         (\<exists>b f1. fetchImage net (url s) = Inr b \<and>
            writeFile f (pathJoin (sessionDir s) (imageName (captureCount s) now)) b = Inr f1 \<and>
            s' = s\<lparr>images := images s @ [imageName (captureCount s) now],
                    captureCount := captureCount s + 1\<rparr> \<and>
            f' = snd (generateGif L f1 (sessionDir s) (images s') 500))"
  using assms
  by (auto simp: capture_def Let_def split: if_splits sum.splits option.splits prod.splits)



subsection \<open>One capture\<close>

lemma imageName_not_gif: "imageName c t \<noteq> gifName"
  by (simp add: imageName_def gifName_def)

lemma imageName_not_metadata: "imageName c t \<noteq> metadataName"
  by (simp add: imageName_def metadataName_def)

lemma pathJoin_eq: "(pathJoin d a = pathJoin d' b) = (d = d' \<and> a = b)"
  by (simp add: pathJoin_def)

lemma capture_duplicate:
  assumes "images s \<noteq> []"
    and "readFile f (pathJoin (sessionDir s) (last (images s))) = Inr b"
    and "fetchImage net (url s) = Inr b"
  shows "capture L net now f s =
           (CaptureResponse (length (images s)) (Some (last (images s))) True, f, s)"
  using assms by (simp add: capture_def latestImage_def)



lemma capture_frame_on_disk:
  assumes "capture L net now f s = (r, f', s')" and "s' \<noteq> s"
  shows "\<exists>b. fetchImage net (url s) = Inr b \<and>
           s' = s\<lparr>images := images s @ [imageName (captureCount s) now],
                   captureCount := captureCount s + 1\<rparr> \<and>
           readFile f' (pathJoin (sessionDir s) (imageName (captureCount s) now)) = Inr b \<and>
           \<not> readOnly f' \<and> dirs f' (sessionDir s) \<noteq> None"
proof -
  from capture_shape[OF assms(1)] assms(2) obtain b f1 where
    fe: "fetchImage net (url s) = Inr b"
    and w: "writeFile f (pathJoin (sessionDir s) (imageName (captureCount s) now)) b = Inr f1"
    and s': "s' = s\<lparr>images := images s @ [imageName (captureCount s) now],
                     captureCount := captureCount s + 1\<rparr>"
    and f': "f' = snd (generateGif L f1 (sessionDir s) (images s') 500)"
    by blast
  have "readFile f' (pathJoin (sessionDir s) (imageName (captureCount s) now)) = Inr b"
    unfolding f'
    by (simp add: generateGif_other_files pathJoin_eq imageName_not_gif
        readFile_writeFile_same[OF w])
  moreover have "\<not> readOnly f' \<and> dirs f' (sessionDir s) \<noteq> None"
    unfolding f'
    using writeFile_keeps[OF w, of "sessionDir s"]
      writeFile_Inr_iff[of f "pathJoin (sessionDir s) (imageName (captureCount s) now)" b] w
    by (auto simp: generateGif_keeps pathJoin_def)
  ultimately show ?thesis using fe s' by blast
qed

lemma session_append_neq:
  "s\<lparr>images := images s @ [x], captureCount := captureCount s + 1\<rparr> \<noteq> (s::session)"
proof
  assume "s\<lparr>images := images s @ [x], captureCount := captureCount s + 1\<rparr> = s"
  then have "images (s\<lparr>images := images s @ [x], captureCount := captureCount s + 1\<rparr>) = images s"
    by simp
  then show False by simp
qed

lemma state_update_same:
  "sessions st sid = Some s \<Longrightarrow> \<lparr>sessions = (sessions st)(sid \<mapsto> s), disk = disk st\<rparr> = st"
  by (cases st) (simp add: fun_upd_idem)

lemma apiCapture_duplicate:
  assumes "sessions st sid = Some s" and "images s \<noteq> []"
    and "readFile (disk st) (pathJoin (sessionDir s) (last (images s))) = Inr b"
    and "fetchImage net (url s) = Inr b"
  shows "apiCapture L sid net now st =
           (CaptureResponse (length (images s)) (Some (last (images s))) True, st)"
  using assms
  by (simp add: apiCapture_def capture_duplicate state_update_same)

lemma run_duplicates:
  assumes "sessions st sid = Some s" and "images s \<noteq> []"
    and "readFile (disk st) (pathJoin (sessionDir s) (last (images s))) = Inr b"
    and "\<forall>r\<in>set rs. fetches sid (url s) b r"
  shows "run L appDir rs st = st"
  using assms(4)
proof (induction rs)
  case Nil
  then show ?case by simp
next
  case (Cons r rs)
  then obtain net now where r: "r = Capture sid net now" and fe: "fetchImage net (url s) = Inr b"
    by (cases r) auto
  have "handle L appDir r st = (CaptureResponse (length (images s)) (Some (last (images s))) True, st)"
    unfolding r using apiCapture_duplicate[OF assms(1-3) fe] by simp
  with Cons show ?case by simp
qed

lemma capture_novel:
  assumes "images s = [] \<or>
           (\<exists>b'. readFile f (pathJoin (sessionDir s) (last (images s))) = Inr b' \<and> b' \<noteq> b)"
    and "fetchImage net (url s) = Inr b"
    and "\<not> readOnly f" and "dirs f (sessionDir s) \<noteq> None"
  shows "snd (snd (capture L net now f s)) \<noteq> s"
proof -
  from assms(3,4) obtain f1 where
    w: "writeFile f (pathJoin (sessionDir s) (imageName (captureCount s) now)) b = Inr f1"
    using writeFile_Inr_iff[of f "pathJoin (sessionDir s) (imageName (captureCount s) now)" b]
    by (auto simp: pathJoin_def)
  have "snd (snd (capture L net now f s)) =
          s\<lparr>images := images s @ [imageName (captureCount s) now],
             captureCount := captureCount s + 1\<rparr>"
    using assms(1,2) w
    by (auto simp: capture_def Let_def split: sum.splits prod.splits)
  then show ?thesis
    using session_append_neq[of s "imageName (captureCount s) now"] by simp
qed


subsection \<open>Runs of requests\<close>





lemma apiCapture_unknown:
  "sessions st sid = None \<Longrightarrow> snd (apiCapture L sid net now st) = st"
  by (simp add: apiCapture_def)







subsection \<open>Directory metadata\<close>

lemma ensureDir_writable:
  assumes "\<not> readOnly f"
  shows "\<exists>f1. ensureDir f dir = Inr f1 \<and> \<not> readOnly f1 \<and> dirs f1 dir \<noteq> None \<and>
           accessFile f1 (pathJoin dir n) = accessFile f (pathJoin dir n)"
proof (cases "dirs f dir")
  case None
  with assms show ?thesis
    by (simp add: ensureDir_def mkdir_def accessDir_def accessFile_def readFile_def pathJoin_def)
next
  case (Some es)
  with assms show ?thesis
    by (simp add: ensureDir_def accessDir_def)
qed

lemma gifName_not_metadata: "gifName \<noteq> metadataName"
  by (simp add: gifName_def metadataName_def)

lemma ensureDir_readFile:
  assumes "ensureDir f dir = Inr f1" and "readFile f p = Inr c"
  shows "readFile f1 p = Inr c"
  using assms
  by (auto simp: ensureDir_def mkdir_def accessDir_def readFile_def
      split: if_splits option.splits)

lemma ensureDir_exists:
  "dirs f dir \<noteq> None \<Longrightarrow> ensureDir f dir = Inr f"
  by (simp add: ensureDir_def accessDir_def)

lemma saveMetadata_exists:
  "readFile f (pathJoin dir metadataName) = Inr c \<Longrightarrow> saveMetadata f dir u isoNow = Inr f"
  by (simp add: saveMetadata_def accessFile_def)

lemma saveMetadata_keeps:
  assumes "saveMetadata f dir2 u isoNow = Inr f2"
    and "readFile f (pathJoin dir metadataName) = Inr c"
  shows "readFile f2 (pathJoin dir metadataName) = Inr c"
proof (cases "accessFile f (pathJoin dir2 metadataName)")
  case True
  with assms show ?thesis by (simp add: saveMetadata_def)
next
  case False
  with assms(2) have "dir2 \<noteq> dir" by (auto simp: accessFile_def)
  moreover from False assms(1) have
    "writeFile f (pathJoin dir2 metadataName) (metadataJson u isoNow) = Inr f2"
    by (simp add: saveMetadata_def)
  ultimately show ?thesis
    using assms(2) by (simp add: readFile_writeFile_other pathJoin_eq)
qed

lemma readFile_dir_exists: "readFile f p = Inr c \<Longrightarrow> dirs f (fst p) \<noteq> None"
  by (auto simp: readFile_def split: option.splits)

lemma apiStart_existing_metadata:
  assumes "u \<noteq> []"
    and "readFile (disk st) (pathJoin (capturesDir appDir (urlToDirectory L u)) metadataName) = Inr c"
  shows "disk (snd (apiStart L appDir (Some u) sid isoNow st)) = disk st"
proof -
  have "dirs (disk st) (capturesDir appDir (urlToDirectory L u)) \<noteq> None"
    using readFile_dir_exists[OF assms(2)] by (simp add: pathJoin_def)
  then show ?thesis
    using assms
    by (simp add: apiStart_def Let_def ensureDir_exists saveMetadata_exists)
qed

lemma apiStart_keeps_metadata:
  assumes "readFile (disk st) (pathJoin dir metadataName) = Inr c"
  shows "readFile (disk (snd (apiStart L appDir urlField sid isoNow st)))
           (pathJoin dir metadataName) = Inr c"
  using assms
  by (auto simp: apiStart_def Let_def dest: ensureDir_readFile saveMetadata_keeps
      split: option.splits sum.splits)

lemma capture_keeps_metadata:
  assumes "readFile f (pathJoin dir metadataName) = Inr c"
  shows "readFile (fst (snd (capture L net now f s))) (pathJoin dir metadataName) = Inr c"
proof -
  obtain r f' s' where c: "capture L net now f s = (r, f', s')"
    by (cases "capture L net now f s") auto
  from capture_shape[OF c] show ?thesis
  proof
    assume "f' = f \<and> s' = s"
    with c assms show ?thesis by simp
  next
    assume "\<exists>b f1. fetchImage net (url s) = Inr b \<and>
            writeFile f (pathJoin (sessionDir s) (imageName (captureCount s) now)) b = Inr f1 \<and>
            s' = s\<lparr>images := images s @ [imageName (captureCount s) now],
                    captureCount := captureCount s + 1\<rparr> \<and>
            f' = snd (generateGif L f1 (sessionDir s) (images s') 500)"
    then obtain b f1 where
      w: "writeFile f (pathJoin (sessionDir s) (imageName (captureCount s) now)) b = Inr f1"
      and f': "f' = snd (generateGif L f1 (sessionDir s) (images s') 500)"
      by blast
    have "readFile f1 (pathJoin dir metadataName) = Inr c"
      using readFile_writeFile_other[OF w, of "pathJoin dir metadataName"] assms
        imageName_not_metadata[of "captureCount s" now]
      by (auto simp: pathJoin_eq)
    then have "readFile f' (pathJoin dir metadataName) = Inr c"
      unfolding f' using gifName_not_metadata
      by (simp add: generateGif_other_files pathJoin_eq)
    with c show ?thesis by simp
  qed
qed

lemma apiGenerateGif_disk:
  "disk (snd (apiGenerateGif L sid speed st)) = disk st \<or>
   (\<exists>s. sessions st sid = Some s \<and>
      disk (snd (apiGenerateGif L sid speed st)) =
        snd (generateGif L (disk st) (sessionDir s) (images s) (speedDelay speed)))"
  by (auto simp: apiGenerateGif_def Let_def split: option.splits sum.splits prod.splits)

lemma handle_keeps_metadata:
  assumes "readFile (disk st) (pathJoin dir metadataName) = Inr c"
  shows "readFile (disk (snd (handle L appDir r st))) (pathJoin dir metadataName) = Inr c"
proof (cases r)
  case (Start urlField k isoNow)
  with apiStart_keeps_metadata[OF assms] show ?thesis by simp
next
  case (Capture k net now)
  show ?thesis
  proof (cases "sessions st k")
    case None
    with assms show ?thesis by (simp add: Capture apiCapture_unknown)
  next
    case (Some s)
    with capture_keeps_metadata[OF assms, of L net now s] show ?thesis
      by (auto simp: Capture apiCapture_def split: prod.splits)
  qed
next
  case (Session k)
  with assms show ?thesis by simp
next
  case (GenerateGif k speed)
  from apiGenerateGif_disk[of L k speed st] show ?thesis
    unfolding GenerateGif
    using assms gifName_not_metadata
    by (auto simp: generateGif_other_files pathJoin_eq)
qed

lemma run_keeps_metadata:
  assumes "readFile (disk st) (pathJoin dir metadataName) = Inr c"
  shows "readFile (disk (run L appDir rs st)) (pathJoin dir metadataName) = Inr c"
  using assms
  by (induction rs arbitrary: st) (auto simp: handle_keeps_metadata)

lemma apiStart_creates_metadata:
  assumes "u \<noteq> []" and "\<not> readOnly (disk st)"
    and "\<not> accessFile (disk st) (pathJoin (capturesDir appDir (urlToDirectory L u)) metadataName)"
  shows "readFile (disk (snd (apiStart L appDir (Some u) sid isoNow st)))
           (pathJoin (capturesDir appDir (urlToDirectory L u)) metadataName)
         = Inr (metadataJson u isoNow)"
proof -
  define dir where "dir = capturesDir appDir (urlToDirectory L u)"
  from ensureDir_writable[OF assms(2), of dir metadataName]
  obtain f1 where e: "ensureDir (disk st) dir = Inr f1"
    and f1: "\<not> readOnly f1" "dirs f1 dir \<noteq> None"
      "accessFile f1 (pathJoin dir metadataName) = accessFile (disk st) (pathJoin dir metadataName)"
    by blast
  from f1 obtain f2 where
    w: "writeFile f1 (pathJoin dir metadataName) (metadataJson u isoNow) = Inr f2"
    using writeFile_Inr_iff[of f1 "pathJoin dir metadataName"] by (auto simp: pathJoin_def)
  have "saveMetadata f1 dir u isoNow = Inr f2"
    using assms(3) f1(3) w by (simp add: saveMetadata_def dir_def)
  with e assms(1) have "disk (snd (apiStart L appDir (Some u) sid isoNow st)) = f2"
    by (simp add: apiStart_def Let_def dir_def)
  with readFile_writeFile_same[OF w] show ?thesis by (simp add: dir_def)
qed


subsection \<open>Loading existing frames\<close>






















subsection \<open>Deduplication during assembly\<close>

lemma addFrames_collapse:
  assumes "map (\<lambda>n. readFile f (pathJoin dir n)) names = map Inr bs"
    and "\<forall>b\<in>set bs. sharpRaw L w h b = Some (render b)"
    and "prev = None \<or> (\<exists>p. prev = Some p \<and> readFile f p = Inr pb)"
  shows "addFrames L f dir w h prev names added =
           (None, added @ map render
              (case prev of None \<Rightarrow> remdups_adj bs | Some p \<Rightarrow> tl (remdups_adj (pb # bs))))"
  using assms
proof (induction names arbitrary: bs prev pb added)
  case Nil
  then show ?case by (auto split: option.splits)
next
  case (Cons n names)
  from Cons.prems(1) obtain b bs' where bs: "bs = b # bs'"
    and rb: "readFile f (pathJoin dir n) = Inr b"
    and rest: "map (\<lambda>n. readFile f (pathJoin dir n)) names = map Inr bs'"
    by (cases bs) auto
  from Cons.prems(2) bs have raw: "sharpRaw L w h b = Some (render b)"
    and raws: "\<forall>b\<in>set bs'. sharpRaw L w h b = Some (render b)"
    by auto
  show ?case
  proof (cases prev)
    case None
    have "addFrames L f dir w h None (n # names) added =
            addFrames L f dir w h (Some (pathJoin dir n)) names (added @ [render b])"
      by (simp add: rb raw)
    also have "\<dots> = (None, (added @ [render b]) @ map render (tl (remdups_adj (b # bs'))))"
      using Cons.IH[OF rest raws, of "Some (pathJoin dir n)" b "added @ [render b]"] rb
      by simp
    also have "(added @ [render b]) @ map render (tl (remdups_adj (b # bs')))
                 = added @ map render (remdups_adj (b # bs'))"
      by (cases bs') (auto simp: remdups_adj_Cons split: list.splits)
    finally show ?thesis by (simp add: None bs)
  next
    case (Some p)
    with Cons.prems(3) have rp: "readFile f p = Inr pb" by auto
    show ?thesis
    proof (cases "b = pb")
      case True
      have "addFrames L f dir w h (Some p) (n # names) added =
              addFrames L f dir w h (Some p) names added"
        by (simp add: imagesAreIdentical_def rb rp True)
      also have "\<dots> = (None, added @ map render (tl (remdups_adj (pb # bs'))))"
        using Cons.IH[OF rest raws, of "Some p" pb added] rp by simp
      finally show ?thesis by (simp add: Some bs True)
    next
      case False
      have "addFrames L f dir w h (Some p) (n # names) added =
              addFrames L f dir w h (Some (pathJoin dir n)) names (added @ [render b])"
        using False by (simp add: imagesAreIdentical_def rb rp raw)
      also have "\<dots> = (None, (added @ [render b]) @ map render (tl (remdups_adj (b # bs'))))"
        using Cons.IH[OF rest raws, of "Some (pathJoin dir n)" b "added @ [render b]"] rb
        by simp
      also have "(added @ [render b]) @ map render (tl (remdups_adj (b # bs')))
                   = added @ map render (remdups_adj (b # bs'))"
        by (cases bs') (auto simp: remdups_adj_Cons split: list.splits)
      finally show ?thesis using False by (simp add: Some bs)
    qed
  qed
qed


subsection \<open>Claims\<close>

text \<open>
  C1, as stated, is false: an origin that answers 404 with a body makes the fetch
  succeed with the body, and the capture stores it as frame 0 and reports success.
\<close>

theorem fetch_non2xx_counterexample:
  "fetchImage notFoundNetwork exampleUrl = Inr ''Not Found'' \<and>
   fst (capture exampleLibs notFoundNetwork 1000 freshDisk freshSession) =
     CaptureResponse 1 (Some ''image_00000_1000.png'') False"
  by code_simp

text \<open>
  C1, amended: if the request or the response emits an error, the fetch fails with that
  error and the capture answers 500 with the message, leaving file system and session as
  they were; if the origin answers, whatever the status code, the fetch succeeds with the
  concatenated body.
\<close>

theorem fetch_failure:
  "(net (if startsWith (url s) ''https'' then Https else Http) (url s) = RequestError m \<or>
    net (if startsWith (url s) ''https'' then Https else Http) (url s) = ResponseError status chunks m
      \<longrightarrow> fetchImage net (url s) = Inl (FetchError m) \<and>
          capture L net now f s =
            (ErrorResponse 500 (''Failed to capture image: '' @ m), f, s)) \<and>
   (net (if startsWith (url s) ''https'' then Https else Http) (url s) = Response status chunks
      \<longrightarrow> fetchImage net (url s) = Inr (concat chunks))"
  by (auto simp: fetchImage_def capture_def captureFailed_def)

text \<open>C1 at a refused connection and at a 404 answer.\<close>

theorem fetch_failure_witness:
  "refusedNetwork Http exampleUrl = RequestError ''connect ECONNREFUSED'' \<and>
   capture exampleLibs refusedNetwork 1000 freshDisk freshSession =
     (ErrorResponse 500 ''Failed to capture image: connect ECONNREFUSED'', freshDisk, freshSession) \<and>
   notFoundNetwork Http exampleUrl = Response 404 [''Not '', ''Found''] \<and>
   fetchImage notFoundNetwork exampleUrl = Inr ''Not Found''"
  using fetch_failure [of refusedNetwork freshSession "''connect ECONNREFUSED''" 0 "[]"
                          exampleLibs 1000 freshDisk]
        fetch_failure [of notFoundNetwork freshSession "[]" 404 "[''Not '', ''Found'']"
                          exampleLibs 1000 freshDisk]
  by (simp add: refusedNetwork_def notFoundNetwork_def freshSession_def exampleUrl_def startsWith_def)

text \<open>
  C2: when the fetched bytes equal the bytes of the last stored frame, the capture
  writes nothing, leaves the session record (frame sequence and counter) as it was and
  reports a duplicate. A non-empty run of captures on one session that all fetch the
  bytes \<open>c\<close>, begun when no frame is stored or the last stored frame differs from
  \<open>c\<close>, on a disk that accepts the write, leaves exactly one more frame in the
  sequence, the counter one higher, and the bytes \<open>c\<close> in the file of that frame.
\<close>

theorem duplicate_capture_discarded:
  "(images s \<noteq> [] \<and>
    readFile f (pathJoin (sessionDir s) (last (images s))) = Inr b \<and>
    fetchImage net (url s) = Inr b
      \<longrightarrow> capture L net now f s =
            (CaptureResponse (length (images s)) (Some (last (images s))) True, f, s)) \<and>
   (sessions st sid = Some t \<and>
    (images t = [] \<or>
     (\<exists>c'. readFile (disk st) (pathJoin (sessionDir t) (last (images t))) = Inr c' \<and> c' \<noteq> c)) \<and>
    \<not> readOnly (disk st) \<and> dirs (disk st) (sessionDir t) \<noteq> None \<and>
    rs \<noteq> [] \<and> (\<forall>r\<in>set rs. fetches sid (url t) c r)
      \<longrightarrow> (\<exists>t' name.
            sessions (run L appDir rs st) sid = Some t' \<and>
            images t' = images t @ [name] \<and>
            length (images t') = length (images t) + 1 \<and>
            captureCount t' = captureCount t + 1 \<and>
            readFile (disk (run L appDir rs st)) (pathJoin (sessionDir t) name) = Inr c))"
proof (intro conjI impI)
  assume "images s \<noteq> [] \<and>
    readFile f (pathJoin (sessionDir s) (last (images s))) = Inr b \<and>
    fetchImage net (url s) = Inr b"
  then show "capture L net now f s =
            (CaptureResponse (length (images s)) (Some (last (images s))) True, f, s)"
    by (simp add: capture_duplicate)
next
  assume a: "sessions st sid = Some t \<and>
    (images t = [] \<or>
     (\<exists>c'. readFile (disk st) (pathJoin (sessionDir t) (last (images t))) = Inr c' \<and> c' \<noteq> c)) \<and>
    \<not> readOnly (disk st) \<and> dirs (disk st) (sessionDir t) \<noteq> None \<and>
    rs \<noteq> [] \<and> (\<forall>r\<in>set rs. fetches sid (url t) c r)"
  then obtain r rest where rs: "rs = r # rest" by (cases rs) auto
  with a obtain net now where r: "r = Capture sid net now"
    and fe: "fetchImage net (url t) = Inr c"
    by (cases r) auto
  obtain r0 f' t' where cap: "capture L net now (disk st) t = (r0, f', t')"
    by (cases "capture L net now (disk st) t") auto
  have "t' \<noteq> t"
    using capture_novel[of t "disk st" c net L now] a fe cap by simp
  from capture_frame_on_disk[OF cap this] fe
  have t': "t' = t\<lparr>images := images t @ [imageName (captureCount t) now],
                     captureCount := captureCount t + 1\<rparr>"
    and rd: "readFile f' (pathJoin (sessionDir t) (imageName (captureCount t) now)) = Inr c"
    by auto
  define st1 where "st1 = \<lparr>sessions = (sessions st)(sid \<mapsto> t'), disk = f'\<rparr>"
  have h: "snd (handle L appDir r st) = st1"
    using a cap by (simp add: r apiCapture_def st1_def)
  have st1: "sessions st1 sid = Some t'" "disk st1 = f'"
    by (simp_all add: st1_def)
  have "run L appDir rest st1 = st1"
  proof (rule run_duplicates[OF st1(1), of c])
    show "images t' \<noteq> []" by (simp add: t')
    show "readFile (disk st1) (pathJoin (sessionDir t') (last (images t'))) = Inr c"
      using rd by (simp add: st1 t')
    show "\<forall>r\<in>set rest. fetches sid (url t') c r"
      using a rs by (simp add: t')
  qed
  then have "run L appDir rs st = st1" by (simp add: rs h)
  then show "\<exists>t' name.
            sessions (run L appDir rs st) sid = Some t' \<and>
            images t' = images t @ [name] \<and>
            length (images t') = length (images t) + 1 \<and>
            captureCount t' = captureCount t + 1 \<and>
            readFile (disk (run L appDir rs st)) (pathJoin (sessionDir t) name) = Inr c"
    using st1 rd by (simp add: t')
qed

text \<open>C2 at a duplicate of the one stored frame, and at three captures of the same bytes.\<close>

theorem duplicate_capture_discarded_witness:
  "capture exampleLibs frameNetwork 2000 oneFrameDisk oneFrameSession =
     (CaptureResponse 1 (Some ''image_00000_1000.png'') True, oneFrameDisk, oneFrameSession) \<and>
   (\<exists>s' name. sessions (run exampleLibs ''/srv'' threeCaptures freshState) ''s1'' = Some s' \<and>
      images s' = [name] \<and> captureCount s' = 1 \<and>
      readFile (disk (run exampleLibs ''/srv'' threeCaptures freshState))
        (pathJoin exampleDir name) = Inr ''A'')"
proof -
  have h1: "images oneFrameSession \<noteq> [] \<and>
      readFile oneFrameDisk (pathJoin (sessionDir oneFrameSession) (last (images oneFrameSession)))
        = Inr ''A'' \<and>
      fetchImage frameNetwork (url oneFrameSession) = Inr ''A''"
    by (simp add: oneFrameSession_def oneFrameDisk_def readFile_def pathJoin_def
        fetchImage_def frameNetwork_def)
  have h2: "sessions freshState ''s1'' = Some freshSession \<and>
      (images freshSession = [] \<or>
       (\<exists>b'. readFile (disk freshState)
               (pathJoin (sessionDir freshSession) (last (images freshSession))) = Inr b' \<and>
             b' \<noteq> ''A'')) \<and>
      \<not> readOnly (disk freshState) \<and> dirs (disk freshState) (sessionDir freshSession) \<noteq> None \<and>
      threeCaptures \<noteq> [] \<and> (\<forall>r\<in>set threeCaptures. fetches ''s1'' (url freshSession) ''A'' r)"
    by (simp add: freshState_def freshSession_def freshDisk_def threeCaptures_def
        fetchImage_def frameNetwork_def)
  from duplicate_capture_discarded
         [where s = oneFrameSession and f = oneFrameDisk and b = "''A''" and net = frameNetwork
            and L = exampleLibs and now = 2000 and st = freshState and sid = "''s1''"
            and t = freshSession and c = "''A''" and rs = threeCaptures and appDir = "''/srv''"]
       h1 h2
  show ?thesis
    by (auto simp: oneFrameSession_def freshSession_def)
qed



text \<open>
  C4: when every frame file can be read and decoded, assembly writes an animation whose
  frames are the rendered contents \<open>bs\<close> of the files in sequence order with each
  frame equal to the previously added one left out (\<open>remdups_adj\<close> compares with
  the last frame kept); for contents \<open>[A, A, B, A]\<close> with \<open>A \<noteq> B\<close> the
  frames are \<open>[A, B, A]\<close>.
\<close>

theorem assembly_collapses_repeats:
  assumes "names \<noteq> []"
    and "map (\<lambda>n. readFile f (pathJoin dir n)) names = map Inr bs"
    and "sharpMetadata L (hd bs) = Some (w, h)"
    and "\<forall>b\<in>set bs. sharpRaw L w h b = Some (render b)"
    and "\<not> readOnly f"
  shows "fst (generateGif L f dir names delay) = Inr (Some (pathJoin dir gifName)) \<and>
         readFile (snd (generateGif L f dir names delay)) (pathJoin dir gifName) =
           Inr (gifEncode L \<lparr>gifWidth = w, gifHeight = h, gifRepeat = 0, gifDelay = delay,
                  gifQuality = 10, gifFrames = map render (remdups_adj bs),
                  gifFinished = True\<rparr>) \<and>
         (\<forall>A B. A \<noteq> B \<and> bs = [A, A, B, A] \<longrightarrow>
            map render (remdups_adj bs) = [render A, render B, render A])"
proof -
  from assms(1,2) obtain b bs' where bs: "bs = b # bs'"
    and r0: "readFile f (pathJoin dir (names ! 0)) = Inr b"
    by (cases names; cases bs) auto
  have af: "addFrames L f dir w h None names [] = (None, map render (remdups_adj bs))"
    using addFrames_collapse[OF assms(2) assms(4), of None undefined "[]"] by simp
  from r0 have "dirs f dir \<noteq> None"
    by (auto simp: readFile_def pathJoin_def split: option.splits)
  with assms(5) obtain f' where
    w: "writeFile f (pathJoin dir gifName)
          (gifEncode L \<lparr>gifWidth = w, gifHeight = h, gifRepeat = 0, gifDelay = delay,
                  gifQuality = 10, gifFrames = map render (remdups_adj bs),
                  gifFinished = True\<rparr>) = Inr f'"
    using writeFile_Inr_iff[of f "pathJoin dir gifName"] by (auto simp: pathJoin_def)
  have g: "generateGif L f dir names delay = (Inr (Some (pathJoin dir gifName)), f')"
    using assms(1,3) r0 af w by (simp add: generateGif_def bs)
  show ?thesis
    using g readFile_writeFile_same[OF w] by auto
qed

text \<open>C4 at four files holding A, A, B, A.\<close>

theorem assembly_collapses_repeats_witness:
  "fst (generateGif exampleLibs abbaDisk exampleDir abbaNames 500) =
     Inr (Some (pathJoin exampleDir gifName)) \<and>
   readFile (snd (generateGif exampleLibs abbaDisk exampleDir abbaNames 500))
     (pathJoin exampleDir gifName) =
       Inr (gifEncode exampleLibs \<lparr>gifWidth = 1, gifHeight = 1, gifRepeat = 0, gifDelay = 500,
              gifQuality = 10, gifFrames = [''A'', ''B'', ''A''], gifFinished = True\<rparr>)"
proof -
  have h1: "abbaNames \<noteq> []" by (simp add: abbaNames_def)
  have h2: "map (\<lambda>n. readFile abbaDisk (pathJoin exampleDir n)) abbaNames =
              map Inr [''A'', ''A'', ''B'', ''A'']"
    by (simp add: abbaNames_def abbaDisk_def readFile_def pathJoin_def)
  have h3: "sharpMetadata exampleLibs (hd [''A'', ''A'', ''B'', ''A'']) = Some (1, 1)"
    by (simp add: exampleLibs_def)
  have h4: "\<forall>b\<in>set [''A'', ''A'', ''B'', ''A'']. sharpRaw exampleLibs 1 1 b = Some (id b)"
    by (simp add: exampleLibs_def)
  have h5: "\<not> readOnly abbaDisk" by (simp add: abbaDisk_def)
  from assembly_collapses_repeats [OF h1 h2 h3 h4 h5, of 500]
  show ?thesis by simp
qed

text \<open>
  C5: for an empty frame list the assembler returns \<^verbatim>\<open>null\<close>, not an error, and
  leaves the file system as it was.
\<close>

theorem empty_assembly:
  "generateGif L f dir [] delay = (Inr None, f)"
  by (simp add: generateGif_def)

text \<open>C5 at a session without frames, also through the regeneration handler.\<close>

theorem empty_assembly_witness:
  "generateGif exampleLibs freshDisk exampleDir [] 500 = (Inr None, freshDisk) \<and>
   fst (apiGenerateGif exampleLibs ''s1'' (Some 2) freshState) = GenerateResponse \<and>
   disk (snd (apiGenerateGif exampleLibs ''s1'' (Some 2) freshState)) = freshDisk"
  using empty_assembly [of exampleLibs freshDisk exampleDir 500]
        empty_assembly [of exampleLibs freshDisk exampleDir "speedDelay (Some 2)"]
  by (simp add: apiGenerateGif_def freshState_def freshSession_def)




text \<open>
  C7: a start for a URL whose directory has no metadata file, on a disk that accepts
  writes, leaves the metadata of that URL and that moment in the file. A start for a
  URL whose directory has a metadata file changes nothing on disk, and no run of
  requests changes the content of that file.
\<close>

theorem metadata_written_once:
  "(u \<noteq> [] \<and> \<not> readOnly (disk st) \<and>
    \<not> accessFile (disk st) (pathJoin (capturesDir appDir (urlToDirectory L u)) metadataName)
      \<longrightarrow> readFile (disk (snd (apiStart L appDir (Some u) sid isoNow st)))
            (pathJoin (capturesDir appDir (urlToDirectory L u)) metadataName)
          = Inr (metadataJson u isoNow)) \<and>
   (u \<noteq> [] \<and>
    readFile (disk st) (pathJoin (capturesDir appDir (urlToDirectory L u)) metadataName) = Inr c
      \<longrightarrow> disk (snd (apiStart L appDir (Some u) sid isoNow st)) = disk st \<and>
          readFile (disk (snd (apiStart L appDir (Some u) sid isoNow st)))
            (pathJoin (capturesDir appDir (urlToDirectory L u)) metadataName) = Inr c \<and>
          readFile (disk (run L appDir rs st))
            (pathJoin (capturesDir appDir (urlToDirectory L u)) metadataName) = Inr c)"
  using apiStart_creates_metadata[of u st appDir L sid isoNow]
    apiStart_existing_metadata[of u st appDir L c sid isoNow]
    run_keeps_metadata[of st "capturesDir appDir (urlToDirectory L u)" c L appDir rs]
  by auto

text \<open>C7 at two starts for the same URL, half a year apart.\<close>

theorem metadata_written_once_witness:
  "readFile (disk (snd firstStart)) (pathJoin exampleDir metadataName) =
     Inr (metadataJson exampleUrl ''2026-01-01T00:00:00.000Z'') \<and>
   readFile (disk (snd secondStart)) (pathJoin exampleDir metadataName) =
     Inr (metadataJson exampleUrl ''2026-01-01T00:00:00.000Z'') \<and>
   disk (snd secondStart) = disk (snd firstStart)"
proof -
  have d: "capturesDir ''/srv'' (urlToDirectory exampleLibs exampleUrl) = exampleDir"
    by (simp add: capturesDir_def urlToDirectory_def exampleLibs_def exampleUrl_def
        exampleDir_def stripScheme_def startsWith_def isAlnum_def)
  have u: "exampleUrl \<noteq> []" by (simp add: exampleUrl_def)
  have a: "\<not> readOnly (disk (initialState emptyDisk)) \<and>
      \<not> accessFile (disk (initialState emptyDisk)) (pathJoin exampleDir metadataName)"
    by (simp add: initialState_def emptyDisk_def accessFile_def readFile_def pathJoin_def)
  from metadata_written_once
         [where u = exampleUrl and st = "initialState emptyDisk" and appDir = "''/srv''"
            and L = exampleLibs and sid = "''s1''" and isoNow = "''2026-01-01T00:00:00.000Z''"]
       u a d
  have first: "readFile (disk (snd firstStart)) (pathJoin exampleDir metadataName) =
     Inr (metadataJson exampleUrl ''2026-01-01T00:00:00.000Z'')"
    by (simp add: firstStart_def)
  from metadata_written_once
         [where u = exampleUrl and st = "snd firstStart" and appDir = "''/srv''"
            and L = exampleLibs and sid = "''s2''" and isoNow = "''2026-06-30T12:00:00.000Z''"
            and c = "metadataJson exampleUrl ''2026-01-01T00:00:00.000Z''"]
       u first d
  show ?thesis
    by (simp add: secondStart_def first)
qed





text \<open>
  C10: a capture whose fetched bytes equal the last stored frame leaves the whole disk,
  and so the animation file, as it was, and answers with success, the existing frame
  count, the name of the latest frame and the duplicate flag. A capture on the session
  that does change the disk has appended a frame: the animation is rewritten on the
  non-duplicate branch only.
\<close>

theorem duplicate_leaves_gif:
  assumes "sessions st sid = Some s" and "images s \<noteq> []"
    and "readFile (disk st) (pathJoin (sessionDir s) (last (images s))) = Inr b"
    and "fetchImage net (url s) = Inr b"
  shows "fst (apiCapture L sid net now st) =
           CaptureResponse (length (images s)) (Some (last (images s))) True \<and>
         disk (snd (apiCapture L sid net now st)) = disk st \<and>
         readFile (disk (snd (apiCapture L sid net now st))) (pathJoin (sessionDir s) gifName)
           = readFile (disk st) (pathJoin (sessionDir s) gifName) \<and>
         (\<forall>net' now'. disk (snd (apiCapture L sid net' now' st)) \<noteq> disk st \<longrightarrow>
            sessions (snd (apiCapture L sid net' now' st)) sid =
              Some (s\<lparr>images := images s @ [imageName (captureCount s) now'],
                      captureCount := captureCount s + 1\<rparr>))"
proof -
  have "sessions (snd (apiCapture L sid net' now' st)) sid =
          Some (s\<lparr>images := images s @ [imageName (captureCount s) now'],
                  captureCount := captureCount s + 1\<rparr>)"
    if changed: "disk (snd (apiCapture L sid net' now' st)) \<noteq> disk st" for net' now'
  proof -
    obtain r f' s' where c: "capture L net' now' (disk st) s = (r, f', s')"
      by (cases "capture L net' now' (disk st) s") auto
    with assms(1) changed have "f' \<noteq> disk st"
      by (simp add: apiCapture_def)
    with capture_shape[OF c] have
      "s' = s\<lparr>images := images s @ [imageName (captureCount s) now'],
               captureCount := captureCount s + 1\<rparr>"
      by auto
    with assms(1) c show ?thesis by (simp add: apiCapture_def)
  qed
  with apiCapture_duplicate[OF assms, of L now] show ?thesis by simp
qed

text \<open>C10 at a second fetch of the one stored frame.\<close>

theorem duplicate_leaves_gif_witness:
  "fst (apiCapture exampleLibs ''s1'' frameNetwork 2000 oneFrameState) =
     CaptureResponse 1 (Some ''image_00000_1000.png'') True \<and>
   disk (snd (apiCapture exampleLibs ''s1'' frameNetwork 2000 oneFrameState)) = oneFrameDisk"
proof -
  have h1: "sessions oneFrameState ''s1'' = Some oneFrameSession"
    by (simp add: oneFrameState_def)
  have h2: "images oneFrameSession \<noteq> []"
    by (simp add: oneFrameSession_def)
  have h3: "readFile (disk oneFrameState)
              (pathJoin (sessionDir oneFrameSession) (last (images oneFrameSession))) = Inr ''A''"
    by (simp add: oneFrameState_def oneFrameSession_def oneFrameDisk_def readFile_def pathJoin_def)
  have h4: "fetchImage frameNetwork (url oneFrameSession) = Inr ''A''"
    by (simp add: fetchImage_def frameNetwork_def)
  from duplicate_leaves_gif [OF h1 h2 h3 h4, of exampleLibs 2000]
  show ?thesis
    by (simp add: oneFrameSession_def oneFrameState_def)
qed

end
